theory Spec2Isabelle
  imports Main "HOL-Library.Word"
begin

section \<open>Values of server.go\<close>

text \<open>
  Errors. A collaborator reports an error value of its own (\<open>Err\<close>);
  \<open>errors.Wrap(err, msg)\<close> of pkg/errors puts a message around a non-nil error.
  A Go \<open>error\<close> that may be nil is an \<open>error option\<close>, \<open>None\<close> being nil.
\<close>

datatype error = Err string | Wrap error string

type_synonym uint64 = "64 word"

text \<open>Go's \<open>uint\<close>, on a 64-bit target.\<close>

type_synonym uint = "64 word"

text \<open>\<open>time.Duration\<close> counts nanoseconds.\<close>

type_synonym Duration = int

definition Millisecond :: Duration where
  "Millisecond = 1000000"

definition Second :: Duration where
  "Second = 1000 * Millisecond"

text \<open>\<open>client.NodeInfo\<close>.\<close>

record NodeInfo =
  ID :: uint64
  Address :: string

text \<open>
  Function values are compared by identity only: the two dialers and the default logger
  that server.go names, and any other function a caller passes. A nil function is
  \<open>None\<close> of the option type.
\<close>

datatype DialFunc = TCPDial | UnixDial | CustomDial nat

datatype LogFunc = DefaultLogFunc | CustomLogFunc nat

text \<open>The two version tags of package protocol that server.go passes to \<open>protocol.Connect\<close>.\<close>

datatype Version = VersionLegacy | VersionOne

text \<open>
  \<open>backoff.BinaryExponential(d)\<close> and \<open>strategy.Backoff(a)\<close> of Rican7/retry, kept
  as the terms server.go builds.
\<close>

datatype Algorithm = BinaryExponential Duration

datatype Strategy = Backoff Algorithm

text \<open>\<open>protocol.Config\<close>, with the three fields server.go sets.\<close>

record Config =
  Dial :: "DialFunc option"
  AttemptTimeout :: Duration
  RetryStrategies :: "Strategy list"

text \<open>A \<open>client.NodeStore\<close> is handed on as it is; its candidates are all that matters.\<close>

type_synonym NodeStore = "NodeInfo list"

text \<open>Handles of the collaborators: the engine, a connection, a context.\<close>

datatype bindings_Node = Engine nat

datatype Protocol = Conn nat

datatype Context = Ctx nat

text \<open>The two message buffers a call owns.\<close>

datatype Message = Request | Response

text \<open>\<open>serverOptions\<close>.\<close>

record serverOptions =
  Log :: "LogFunc option"
  DialFunc :: "DialFunc option"
  BindAddress :: string

text \<open>\<open>Node\<close>. The channel \<open>acceptCh\<close> (capacity one) is the list of errors it holds.\<close>

record Node =
  log :: "LogFunc option"
  server :: bindings_Node
  acceptCh :: "error list"
  id' :: uint64
  address :: string
  bindAddress :: string

section \<open>The collaborators\<close>

text \<open>
  Every call that leaves server.go is an event, with its arguments. The history of a run is
  the list of its events, oldest first.
\<close>

datatype event =
    Ev_bindings_NewNode uint string string
  | Ev_SetDialFunc bindings_Node DialFunc
  | Ev_SetBindAddress bindings_Node string
  | Ev_GetBindAddress bindings_Node
  | Ev_Start bindings_Node
  | Ev_Stop bindings_Node
  | Ev_Close bindings_Node
  | Ev_protocol_Connect Context DialFunc string Version
  | Ev_NewConnector uint64 NodeStore Config "LogFunc option"
  | Ev_connector_Connect Context
  | Ev_Init Message nat
  | Ev_EncodeCluster Message
  | Ev_EncodeLeader Message
  | Ev_EncodeJoin Message uint64 string
  | Ev_EncodePromote Message uint64
  | Ev_EncodeRemove Message uint64
  | Ev_Call Protocol Context Message Message
  | Ev_DecodeNodes Message
  | Ev_DecodeNode Message
  | Ev_conn_Close Protocol

type_synonym trace = "event list"

text \<open>
  The engine (package bindings) and package protocol are not part of server.go. What
  they answer is a parameter: each answer is a function of the history up to and
  including the call that is answered, so an answer may depend on anything that happened
  before. A call that returns a value and an error returns \<open>Inl\<close> the error or
  \<open>Inr\<close> the value.
\<close>

record world =
  bindings_NewNode :: "trace \<Rightarrow> error + bindings_Node"
  server_SetDialFunc :: "trace \<Rightarrow> error option"
  server_SetBindAddress :: "trace \<Rightarrow> error option"
  server_GetBindAddress :: "trace \<Rightarrow> string"
  server_Start :: "trace \<Rightarrow> error option"
  server_Stop :: "trace \<Rightarrow> error option"
  protocol_Connect :: "trace \<Rightarrow> error + Protocol"
  connector_Connect :: "trace \<Rightarrow> error + Protocol"
  conn_Call :: "trace \<Rightarrow> error option"
  protocol_DecodeNodes :: "trace \<Rightarrow> error + NodeInfo list"
  protocol_DecodeNode :: "trace \<Rightarrow> error + uint64 \<times> string"

section \<open>Options\<close>

text \<open>
  A \<open>NodeOption\<close> is a function on the unexported \<open>serverOptions\<close>; the three
  constructors below are the only ones.
\<close>

datatype NodeOption =
    WithNodeLogFunc "LogFunc option"
  | WithNodeDialFunc "DialFunc option"
  | WithNodeBindAddress string

fun apply_option :: "NodeOption \<Rightarrow> serverOptions \<Rightarrow> serverOptions" where
  "apply_option (WithNodeLogFunc l) options = options\<lparr>Log := l\<rparr>"
| "apply_option (WithNodeDialFunc dial) options = options\<lparr>DialFunc := dial\<rparr>"
| "apply_option (WithNodeBindAddress a) options = options\<lparr>BindAddress := a\<rparr>"

definition defaultNodeOptions :: serverOptions where
  "defaultNodeOptions = \<lparr>Log = Some DefaultLogFunc, DialFunc = None, BindAddress = ''''\<rparr>"

text \<open>The loop \<open>for _, option := range options { option(o) }\<close>.\<close>

fun apply_options :: "NodeOption list \<Rightarrow> serverOptions \<Rightarrow> serverOptions" where
  "apply_options [] o' = o'"
| "apply_options (option # options) o' = apply_options options (apply_option option o')"

section \<open>Formatting\<close>

text \<open>\<open>fmt.Sprintf("%d", n)\<close> of an unsigned integer: its decimal digits.\<close>

definition digit :: "nat \<Rightarrow> char" where
  "digit d = ''0123456789'' ! d"

function decimal :: "nat \<Rightarrow> string" where
  "decimal n = (if n < 10 then [digit n] else decimal (n div 10) @ [digit (n mod 10)])"
  by pat_completeness auto
termination
  by (relation "measure (\<lambda>n. n)") auto

declare decimal.simps [simp del]

section \<open>NewNode\<close>

text \<open>
  A Go function returning \<open>(*Node, error)\<close> returns a pair of options: \<open>None\<close> is the
  nil pointer, respectively the nil error. Every function also returns the history,
  extended by the calls it made.
\<close>

definition NewNode ::
  "world \<Rightarrow> NodeInfo \<Rightarrow> string \<Rightarrow> NodeOption list \<Rightarrow> trace
     \<Rightarrow> (Node option \<times> error option) \<times> trace" where
  "NewNode w info dir options t =
     (let o' = apply_options options defaultNodeOptions;
          t1 = t @ [Ev_bindings_NewNode (ucast (ID info)) (Address info) dir]
      in case bindings_NewNode w t1 of
           Inl err \<Rightarrow> ((None, Some err), t1)
         | Inr srv \<Rightarrow>
             (let (r2, t2) =
                    (case DialFunc o' of
                       Some d \<Rightarrow>
                         (let t' = t1 @ [Ev_SetDialFunc srv d]
                          in (server_SetDialFunc w t', t'))
                     | None \<Rightarrow> (None, t1))
              in case r2 of
                   Some err \<Rightarrow> ((None, Some err), t2)
                 | None \<Rightarrow>
                     (let bindAddress0 = ''@dqlite-'' @ decimal (unat (ID info));
                          bindAddress1 =
                            (if BindAddress o' \<noteq> '''' then BindAddress o' else bindAddress0);
                          t3 = t2 @ [Ev_SetBindAddress srv bindAddress1]
                      in case server_SetBindAddress w t3 of
                           Some err \<Rightarrow> ((None, Some err), t3)
                         | None \<Rightarrow>
                             ((Some \<lparr>log = Log o', server = srv, acceptCh = [],
                                     id' = ID info, address = Address info,
                                     bindAddress = bindAddress1\<rparr>, None), t3))))"

section \<open>Methods of Node\<close>

text \<open>
  A method has the pointer receiver \<open>s\<close>: it takes the node and the history and returns
  both, after its result.
\<close>

definition Node_BindAddress :: "world \<Rightarrow> Node \<times> trace \<Rightarrow> string \<times> Node \<times> trace" where
  "Node_BindAddress w = (\<lambda>(s, t).
     (let t1 = t @ [Ev_GetBindAddress (server s)]
      in (server_GetBindAddress w t1, s, t1)))"

text \<open>A nil slice and an empty slice are both the empty list.\<close>

definition Cluster ::
  "world \<Rightarrow> Context \<Rightarrow> Node \<times> trace \<Rightarrow> (NodeInfo list \<times> error option) \<times> Node \<times> trace" where
  "Cluster w ctx = (\<lambda>(s, t).
     (let t1 = t @ [Ev_protocol_Connect ctx UnixDial (bindAddress s) VersionLegacy]
      in case protocol_Connect w t1 of
           Inl err \<Rightarrow> (([], Some (Wrap err ''failed to connect to dqlite task'')), s, t1)
         | Inr c \<Rightarrow>
             (let t2 = t1 @ [Ev_Init Request 16, Ev_Init Response 512,
                             Ev_EncodeCluster Request, Ev_Call c ctx Request Response]
              in case conn_Call w t2 of
                   Some err \<Rightarrow>
                     (([], Some (Wrap err ''failed to send Cluster request'')),
                      s, t2 @ [Ev_conn_Close c])
                 | None \<Rightarrow>
                     (let t3 = t2 @ [Ev_DecodeNodes Response]
                      in case protocol_DecodeNodes w t3 of
                           Inl err \<Rightarrow>
                             (([], Some (Wrap err ''failed to parse Node response'')),
                              s, t3 @ [Ev_conn_Close c])
                         | Inr servers \<Rightarrow>
                             ((servers, None), s, t3 @ [Ev_conn_Close c])))))"

definition Leader ::
  "world \<Rightarrow> Context \<Rightarrow> Node \<times> trace \<Rightarrow> (NodeInfo option \<times> error option) \<times> Node \<times> trace" where
  "Leader w ctx = (\<lambda>(s, t).
     (let t1 = t @ [Ev_protocol_Connect ctx UnixDial (bindAddress s) VersionOne]
      in case protocol_Connect w t1 of
           Inl err \<Rightarrow> ((None, Some (Wrap err ''failed to connect to dqlite task'')), s, t1)
         | Inr p \<Rightarrow>
             (let t2 = t1 @ [Ev_Init Request 16, Ev_Init Response 512,
                             Ev_EncodeLeader Request, Ev_Call p ctx Request Response]
              in case conn_Call w t2 of
                   Some err \<Rightarrow>
                     ((None, Some (Wrap err ''failed to send Leader request'')),
                      s, t2 @ [Ev_conn_Close p])
                 | None \<Rightarrow>
                     (let t3 = t2 @ [Ev_DecodeNode Response]
                      in case protocol_DecodeNode w t3 of
                           Inl err \<Rightarrow>
                             ((None, Some (Wrap err ''failed to parse Node response'')),
                              s, t3 @ [Ev_conn_Close p])
                         | Inr (i, a) \<Rightarrow>
                             ((Some \<lparr>ID = i, Address = a\<rparr>, None),
                              s, t3 @ [Ev_conn_Close p])))))"

definition Start :: "world \<Rightarrow> Node \<times> trace \<Rightarrow> error option \<times> Node \<times> trace" where
  "Start w = (\<lambda>(s, t).
     (let t1 = t @ [Ev_Start (server s)]
      in (server_Start w t1, s, t1)))"

definition Join ::
  "world \<Rightarrow> Context \<Rightarrow> NodeStore \<Rightarrow> DialFunc option \<Rightarrow> Node \<times> trace
     \<Rightarrow> error option \<times> Node \<times> trace" where
  "Join w ctx store dial = (\<lambda>(s, t).
     (let dial1 = (if dial = None then Some TCPDial else dial);
          config = \<lparr>Dial = dial1, AttemptTimeout = Second,
                    RetryStrategies = [Backoff (BinaryExponential Millisecond)]\<rparr>;
          t1 = t @ [Ev_NewConnector 0 store config (log s), Ev_connector_Connect ctx]
      in case connector_Connect w t1 of
           Inl err \<Rightarrow> (Some err, s, t1)
         | Inr c \<Rightarrow>
             (let t2 = t1 @ [Ev_Init Request 4096, Ev_Init Response 4096,
                             Ev_EncodeJoin Request (id' s) (address s),
                             Ev_Call c ctx Request Response]
              in case conn_Call w t2 of
                   Some err \<Rightarrow> (Some err, s, t2 @ [Ev_conn_Close c])
                 | None \<Rightarrow>
                     (let t3 = t2 @ [Ev_EncodePromote Request (id' s),
                                     Ev_Call c ctx Request Response]
                      in case conn_Call w t3 of
                           Some err \<Rightarrow> (Some err, s, t3 @ [Ev_conn_Close c])
                         | None \<Rightarrow> (None, s, t3 @ [Ev_conn_Close c])))))"

text \<open>Leave is a function of the package, with no receiver.\<close>

definition Leave ::
  "world \<Rightarrow> Context \<Rightarrow> uint64 \<Rightarrow> NodeStore \<Rightarrow> DialFunc option \<Rightarrow> trace
     \<Rightarrow> error option \<times> trace" where
  "Leave w ctx i store dial t =
     (let dial1 = (if dial = None then Some TCPDial else dial);
          config = \<lparr>Dial = dial1, AttemptTimeout = Second,
                    RetryStrategies = [Backoff (BinaryExponential Millisecond)]\<rparr>;
          t1 = t @ [Ev_NewConnector 0 store config (Some DefaultLogFunc),
                    Ev_connector_Connect ctx]
      in case connector_Connect w t1 of
           Inl err \<Rightarrow> (Some err, t1)
         | Inr c \<Rightarrow>
             (let t2 = t1 @ [Ev_Init Request 4096, Ev_Init Response 4096,
                             Ev_EncodeRemove Request i, Ev_Call c ctx Request Response]
              in case conn_Call w t2 of
                   Some err \<Rightarrow> (Some err, t2 @ [Ev_conn_Close c])
                 | None \<Rightarrow> (None, t2 @ [Ev_conn_Close c])))"

definition Close :: "world \<Rightarrow> Node \<times> trace \<Rightarrow> error option \<times> Node \<times> trace" where
  "Close w = (\<lambda>(s, t).
     (let t1 = t @ [Ev_Stop (server s)]
      in case server_Stop w t1 of
           Some err \<Rightarrow> (Some (Wrap err ''server failed to stop''), s, t1)
         | None \<Rightarrow> (None, s, t1 @ [Ev_Close (server s)])))"

section \<open>Runs of a node\<close>

text \<open>The methods a caller can invoke on a node, and a run of several of them in turn.\<close>

datatype Method =
    M_BindAddress
  | M_Cluster Context
  | M_Leader Context
  | M_Start
  | M_Join Context NodeStore "DialFunc option"
  | M_Close

fun invoke :: "world \<Rightarrow> Method \<Rightarrow> Node \<times> trace \<Rightarrow> Node \<times> trace" where
  "invoke w M_BindAddress st = snd (Node_BindAddress w st)"
| "invoke w (M_Cluster ctx) st = snd (Cluster w ctx st)"
| "invoke w (M_Leader ctx) st = snd (Leader w ctx st)"
| "invoke w M_Start st = snd (Start w st)"
| "invoke w (M_Join ctx store dial) st = snd (Join w ctx store dial st)"
| "invoke w M_Close st = snd (Close w st)"

fun run :: "world \<Rightarrow> Method list \<Rightarrow> Node \<times> trace \<Rightarrow> Node \<times> trace" where
  "run w [] st = st"
| "run w (m # ms) st = run w ms (invoke w m st)"

section \<open>Reading a history\<close>

text \<open>The events that a run added to the history \<open>t\<close> it started from.\<close>

definition events_since :: "trace \<Rightarrow> trace \<Rightarrow> event list" where
  "events_since t t' = drop (length t) t'"

text \<open>
  The error, if any, that the collaborator answered to the call \<open>ev\<close> made after the
  history \<open>t\<close>. Calls that return no error answer none.
\<close>

fun answer :: "world \<Rightarrow> trace \<Rightarrow> event \<Rightarrow> error option" where
  "answer w t (Ev_bindings_NewNode i a d) =
     (case bindings_NewNode w (t @ [Ev_bindings_NewNode i a d]) of
        Inl e \<Rightarrow> Some e | Inr _ \<Rightarrow> None)"
| "answer w t (Ev_SetDialFunc srv d) = server_SetDialFunc w (t @ [Ev_SetDialFunc srv d])"
| "answer w t (Ev_SetBindAddress srv a) = server_SetBindAddress w (t @ [Ev_SetBindAddress srv a])"
| "answer w t (Ev_Start srv) = server_Start w (t @ [Ev_Start srv])"
| "answer w t (Ev_Stop srv) = server_Stop w (t @ [Ev_Stop srv])"
| "answer w t (Ev_protocol_Connect ctx d a v) =
     (case protocol_Connect w (t @ [Ev_protocol_Connect ctx d a v]) of
        Inl e \<Rightarrow> Some e | Inr _ \<Rightarrow> None)"
| "answer w t (Ev_connector_Connect ctx) =
     (case connector_Connect w (t @ [Ev_connector_Connect ctx]) of
        Inl e \<Rightarrow> Some e | Inr _ \<Rightarrow> None)"
| "answer w t (Ev_Call c ctx rq rs) = conn_Call w (t @ [Ev_Call c ctx rq rs])"
| "answer w t (Ev_DecodeNodes m) =
     (case protocol_DecodeNodes w (t @ [Ev_DecodeNodes m]) of
        Inl e \<Rightarrow> Some e | Inr _ \<Rightarrow> None)"
| "answer w t (Ev_DecodeNode m) =
     (case protocol_DecodeNode w (t @ [Ev_DecodeNode m]) of
        Inl e \<Rightarrow> Some e | Inr _ \<Rightarrow> None)"
| "answer w t _ = None"

text \<open>The errors answered to the calls \<open>evs\<close> made one after the other from \<open>t\<close> on.\<close>

fun answered :: "world \<Rightarrow> trace \<Rightarrow> event list \<Rightarrow> error list" where
  "answered w t [] = []"
| "answered w t (ev # evs) =
     (case answer w t ev of Some e \<Rightarrow> [e] | None \<Rightarrow> []) @ answered w (t @ [ev]) evs"

text \<open>The connections that the calls \<open>evs\<close> established, and the connections they closed.\<close>

fun established :: "world \<Rightarrow> trace \<Rightarrow> event \<Rightarrow> Protocol list" where
  "established w t (Ev_protocol_Connect ctx d a v) =
     (case protocol_Connect w (t @ [Ev_protocol_Connect ctx d a v]) of
        Inl _ \<Rightarrow> [] | Inr c \<Rightarrow> [c])"
| "established w t (Ev_connector_Connect ctx) =
     (case connector_Connect w (t @ [Ev_connector_Connect ctx]) of
        Inl _ \<Rightarrow> [] | Inr c \<Rightarrow> [c])"
| "established w t _ = []"

fun opened :: "world \<Rightarrow> trace \<Rightarrow> event list \<Rightarrow> Protocol list" where
  "opened w t [] = []"
| "opened w t (ev # evs) = established w t ev @ opened w (t @ [ev]) evs"

fun closed :: "event list \<Rightarrow> Protocol list" where
  "closed [] = []"
| "closed (Ev_conn_Close c # evs) = c # closed evs"
| "closed (_ # evs) = closed evs"

text \<open>The message that wraps an error, if one does.\<close>

fun wrapping :: "error \<Rightarrow> string option" where
  "wrapping (Wrap _ msg) = Some msg"
| "wrapping (Err _) = None"

text \<open>Events that obtain a connection, directly or through a Connector and its store.\<close>

fun connects :: "event \<Rightarrow> bool" where
  "connects (Ev_protocol_Connect _ _ _ _) = True"
| "connects (Ev_NewConnector _ _ _ _) = True"
| "connects (Ev_connector_Connect _) = True"
| "connects _ = False"

fun is_close :: "event \<Rightarrow> bool" where
  "is_close (Ev_conn_Close _) = True"
| "is_close _ = False"

text \<open>The connections on which the calls \<open>evs\<close> issue a request, in order.\<close>

fun called :: "event list \<Rightarrow> Protocol list" where
  "called [] = []"
| "called (Ev_Call c _ _ _ # evs) = c # called evs"
| "called (_ # evs) = called evs"

text \<open>
  A run releases its connections: it closes exactly the connections it established, and
  closing is the last thing it does.
\<close>

definition releases :: "world \<Rightarrow> trace \<Rightarrow> event list \<Rightarrow> bool" where
  "releases w t evs \<longleftrightarrow>
     closed evs = opened w t evs \<and>
     (\<forall>c \<in> set (opened w t evs). evs \<noteq> [] \<and> last evs = Ev_conn_Close c)"

section \<open>A one-node cluster\<close>

text \<open>
  Collaborators that answer every call without an error, and a node as NewNode builds it
  for the identity \<open>(1, 127.0.0.1:9001)\<close> with no option.
\<close>

definition calm :: world where
  "calm =
     \<lparr>bindings_NewNode = (\<lambda>t. Inr (Engine 1)),
      server_SetDialFunc = (\<lambda>t. None),
      server_SetBindAddress = (\<lambda>t. None),
      server_GetBindAddress = (\<lambda>t. ''@dqlite-1''),
      server_Start = (\<lambda>t. None),
      server_Stop = (\<lambda>t. None),
      protocol_Connect = (\<lambda>t. Inr (Conn 1)),
      connector_Connect = (\<lambda>t. Inr (Conn 2)),
      conn_Call = (\<lambda>t. None),
      protocol_DecodeNodes = (\<lambda>t. Inr [\<lparr>ID = 1, Address = ''127.0.0.1:9001''\<rparr>]),
      protocol_DecodeNode = (\<lambda>t. Inr (1, ''127.0.0.1:9001''))\<rparr>"

definition node1 :: Node where
  "node1 =
     \<lparr>log = Some DefaultLogFunc, server = Engine 1, acceptCh = [], id' = 1,
      address = ''127.0.0.1:9001'', bindAddress = ''@dqlite-1''\<rparr>"

text \<open>An engine that refuses to stop.\<close>

definition stubborn :: world where
  "stubborn = calm\<lparr>server_Stop := (\<lambda>t. Some (Err ''busy''))\<rparr>"

text \<open>An engine with no leader yet: the Leader response decodes to the zero identity.\<close>

definition leaderless :: world where
  "leaderless = calm\<lparr>protocol_DecodeNode := (\<lambda>t. Inr (0, []))\<rparr>"

text \<open>
  A peer that drops the connection on the first request, and one that acknowledges the
  Join request and drops the connection on the Promote request.
\<close>

definition drops_join :: world where
  "drops_join = calm\<lparr>conn_Call := (\<lambda>t. Some (Err ''EOF''))\<rparr>"

definition drops_promote :: world where
  "drops_promote =
     calm\<lparr>conn_Call := (\<lambda>t. if Ev_EncodePromote Request 1 \<in> set t
                             then Some (Err ''EOF'') else None)\<rparr>"

text \<open>A cluster that no dial reaches.\<close>

definition unreachable :: world where
  "unreachable =
     calm\<lparr>protocol_Connect := (\<lambda>t. Inl (Err ''connection refused'')),
          connector_Connect := (\<lambda>t. Inl (Err ''no available dqlite leader server found''))\<rparr>"

text \<open>An engine that rejects the dial function it is given.\<close>

definition deaf :: world where
  "deaf = calm\<lparr>server_SetDialFunc := (\<lambda>t. Some (Err ''dial function rejected''))\<rparr>"

text \<open>A peer whose answer to the Leader request is cut short.\<close>

definition garbled :: world where
  "garbled = calm\<lparr>protocol_DecodeNode := (\<lambda>t. Inl (Err ''short read''))\<rparr>"

section \<open>Basic facts\<close>

lemma events_since_append [simp]: "events_since t (t @ evs) = evs"
  by (simp add: events_since_def)

lemma events_since_Nil [simp]: "events_since [] evs = evs"
  by (simp add: events_since_def)

section \<open>Closing a node\<close>

text \<open>
  C1, as the code has it. Close first sends the stop signal to the engine. It releases
  the engine's resources (the engine's Close) exactly when the stop step reported no
  error, and then returns nil; when the stop step reported an error, Close returns that
  error wrapped with "server failed to stop" and the engine's Close is not called.
\<close>

theorem Close_stop_then_release:
  assumes "Close w (s, t) = (r, s', t')"
  shows "take 1 (events_since t t') = [Ev_Stop (server s)]
       \<and> (Ev_Close (server s) \<in> set (events_since t t')
            \<longleftrightarrow> answer w t (Ev_Stop (server s)) = None)
       \<and> r = map_option (\<lambda>e. Wrap e ''server failed to stop'')
                (answer w t (Ev_Stop (server s)))"
proof -
  have *: "r = fst (Close w (s, t))" "t' = snd (snd (Close w (s, t)))"
    using assms by simp_all
  show ?thesis
    unfolding * by (simp add: Close_def Let_def split: option.splits)
qed

theorem Close_stop_then_release_witness:
  "Close stubborn (node1, []) =
     (Some (Wrap (Err ''busy'') ''server failed to stop''), node1, [Ev_Stop (Engine 1)])
   \<and> (take 1 (events_since [] [Ev_Stop (Engine 1)]) = [Ev_Stop (server node1)]
      \<and> (Ev_Close (server node1) \<in> set (events_since [] [Ev_Stop (Engine 1)])
           \<longleftrightarrow> answer stubborn [] (Ev_Stop (server node1)) = None)
      \<and> Some (Wrap (Err ''busy'') ''server failed to stop'') =
          map_option (\<lambda>e. Wrap e ''server failed to stop'')
            (answer stubborn [] (Ev_Stop (server node1))))"
proof -
  have h: "Close stubborn (node1, []) =
      (Some (Wrap (Err ''busy'') ''server failed to stop''), node1, [Ev_Stop (Engine 1)])"
    by (simp add: Close_def stubborn_def calm_def node1_def)
  show ?thesis
    by (rule conjI [OF h Close_stop_then_release [OF h]])
qed

text \<open>
  C1 as the specification states it fails: with an engine that answers the stop signal
  with an error, the run of Close holds no call of the engine's Close.
\<close>

theorem Close_skips_release_counterexample:
  "answer stubborn [] (Ev_Stop (server node1)) = Some (Err ''busy'')
   \<and> Ev_Close (server node1) \<notin> set (snd (snd (Close stubborn (node1, []))))"
  by (simp add: Close_def stubborn_def calm_def node1_def)

section \<open>The result of Leader\<close>

text \<open>
  C2, as the code has it. Leader returns a nil pointer exactly when it returns an error.
  A call that returns no error returns a pointer to a NodeInfo that holds the pair
  DecodeNode produced, whatever that pair is: there is no nil result without an error, so
  "no leader" is the node information the decoder gives for it and not a nil pointer. A
  response that fails to decode gives a nil pointer and the decode error, wrapped with
  "failed to parse Node response".
\<close>

theorem Leader_result:
  assumes "Leader w ctx (s, t) = ((info, err), s', t')"
  shows "(info = None \<longleftrightarrow> err \<noteq> None)
       \<and> (err = None \<longrightarrow>
            (\<exists>i a. protocol_DecodeNode w (butlast t') = Inr (i, a)
                 \<and> info = Some \<lparr>ID = i, Address = a\<rparr>))
       \<and> (Ev_DecodeNode Response \<in> set (events_since t t') \<longrightarrow>
            (\<forall>e. protocol_DecodeNode w (butlast t') = Inl e \<longrightarrow>
                 info = None \<and> err = Some (Wrap e ''failed to parse Node response'')))"
proof -
  have *: "info = fst (fst (Leader w ctx (s, t)))" "err = snd (fst (Leader w ctx (s, t)))"
    "t' = snd (snd (Leader w ctx (s, t)))"
    using assms by simp_all
  show ?thesis
    unfolding *
    by (simp add: Leader_def Let_def butlast_append
             split: option.splits sum.splits prod.splits)
qed

theorem Leader_result_witness:
  "Leader calm (Ctx 0) (node1, []) =
     ((Some \<lparr>ID = 1, Address = ''127.0.0.1:9001''\<rparr>, None), node1,
      [Ev_protocol_Connect (Ctx 0) UnixDial ''@dqlite-1'' VersionOne,
       Ev_Init Request 16, Ev_Init Response 512, Ev_EncodeLeader Request,
       Ev_Call (Conn 1) (Ctx 0) Request Response, Ev_DecodeNode Response,
       Ev_conn_Close (Conn 1)])
   \<and> (\<exists>i a. protocol_DecodeNode calm (butlast
      [Ev_protocol_Connect (Ctx 0) UnixDial ''@dqlite-1'' VersionOne,
       Ev_Init Request 16, Ev_Init Response 512, Ev_EncodeLeader Request,
       Ev_Call (Conn 1) (Ctx 0) Request Response, Ev_DecodeNode Response,
       Ev_conn_Close (Conn 1)]) = Inr (i, a)
        \<and> Some \<lparr>ID = 1, Address = ''127.0.0.1:9001''\<rparr> = Some \<lparr>ID = i, Address = a\<rparr>)
   \<and> Leader garbled (Ctx 0) (node1, []) =
     ((None, Some (Wrap (Err ''short read'') ''failed to parse Node response'')), node1,
      [Ev_protocol_Connect (Ctx 0) UnixDial ''@dqlite-1'' VersionOne,
       Ev_Init Request 16, Ev_Init Response 512, Ev_EncodeLeader Request,
       Ev_Call (Conn 1) (Ctx 0) Request Response, Ev_DecodeNode Response,
       Ev_conn_Close (Conn 1)])
   \<and> Ev_DecodeNode Response \<in> set (events_since []
      [Ev_protocol_Connect (Ctx 0) UnixDial ''@dqlite-1'' VersionOne,
       Ev_Init Request 16, Ev_Init Response 512, Ev_EncodeLeader Request,
       Ev_Call (Conn 1) (Ctx 0) Request Response, Ev_DecodeNode Response,
       Ev_conn_Close (Conn 1)])
   \<and> protocol_DecodeNode garbled (butlast
      [Ev_protocol_Connect (Ctx 0) UnixDial ''@dqlite-1'' VersionOne,
       Ev_Init Request 16, Ev_Init Response 512, Ev_EncodeLeader Request,
       Ev_Call (Conn 1) (Ctx 0) Request Response, Ev_DecodeNode Response,
       Ev_conn_Close (Conn 1)]) = Inl (Err ''short read'')
   \<and> (None::NodeInfo option) = None \<and> Some (Wrap (Err ''short read'') ''failed to parse Node response'') = Some (Wrap (Err ''short read'') ''failed to parse Node response'')"
proof -
  have h: "Leader calm (Ctx 0) (node1, []) =
     ((Some \<lparr>ID = 1, Address = ''127.0.0.1:9001''\<rparr>, None), node1,
      [Ev_protocol_Connect (Ctx 0) UnixDial ''@dqlite-1'' VersionOne,
       Ev_Init Request 16, Ev_Init Response 512, Ev_EncodeLeader Request,
       Ev_Call (Conn 1) (Ctx 0) Request Response, Ev_DecodeNode Response,
       Ev_conn_Close (Conn 1)])"
    by (simp add: Leader_def calm_def node1_def Let_def)
  have g: "Leader garbled (Ctx 0) (node1, []) =
     ((None, Some (Wrap (Err ''short read'') ''failed to parse Node response'')), node1,
      [Ev_protocol_Connect (Ctx 0) UnixDial ''@dqlite-1'' VersionOne,
       Ev_Init Request 16, Ev_Init Response 512, Ev_EncodeLeader Request,
       Ev_Call (Conn 1) (Ctx 0) Request Response, Ev_DecodeNode Response,
       Ev_conn_Close (Conn 1)])"
    by (simp add: Leader_def garbled_def calm_def node1_def Let_def)
  have p: "Ev_DecodeNode Response \<in> set (events_since []
      [Ev_protocol_Connect (Ctx 0) UnixDial ''@dqlite-1'' VersionOne,
       Ev_Init Request 16, Ev_Init Response 512, Ev_EncodeLeader Request,
       Ev_Call (Conn 1) (Ctx 0) Request Response, Ev_DecodeNode Response,
       Ev_conn_Close (Conn 1)])"
    by simp
  have d: "protocol_DecodeNode garbled (butlast
      [Ev_protocol_Connect (Ctx 0) UnixDial ''@dqlite-1'' VersionOne,
       Ev_Init Request 16, Ev_Init Response 512, Ev_EncodeLeader Request,
       Ev_Call (Conn 1) (Ctx 0) Request Response, Ev_DecodeNode Response,
       Ev_conn_Close (Conn 1)]) = Inl (Err ''short read'')"
    by (simp add: garbled_def calm_def)
  note c = Leader_result [OF h, THEN conjunct2, THEN conjunct1, THEN mp, OF refl]
  note e = Leader_result [OF g, THEN conjunct2, THEN conjunct2, THEN mp, OF p,
      THEN spec, THEN mp, OF d]
  show ?thesis
    by (rule conjI [OF h conjI [OF c conjI [OF g conjI [OF p conjI [OF d e]]]]])
qed

text \<open>
  C2 as the specification states it fails: when the response decodes, without an error,
  to the zero identity of a cluster that has no leader, Leader returns a pointer to that
  NodeInfo and not nil.
\<close>

theorem Leader_leaderless_counterexample:
  "fst (Leader leaderless (Ctx 0) (node1, [])) = (Some \<lparr>ID = 0, Address = []\<rparr>, None)
   \<and> fst (fst (Leader leaderless (Ctx 0) (node1, []))) \<noteq> None"
  by (simp add: Leader_def leaderless_def calm_def node1_def Let_def)

section \<open>The two steps of Join\<close>

lemma Join_answered:
  "answered w t (events_since t (snd (snd (Join w ctx store dial (s, t))))) =
     (case fst (Join w ctx store dial (s, t)) of None \<Rightarrow> [] | Some e \<Rightarrow> [e])"
  by (simp add: Join_def Let_def split: option.splits sum.splits split del: if_split)

text \<open>
  C3, as the code has it. When Join fails, exactly one call of the run was answered with
  an error (the Connector's Connect, the call of the Join request or the call of the
  Promote request), and Join returns that error value as it is. Join adds nothing that
  names the step: the steps can be told apart only as far as the collaborator's errors
  differ.
\<close>

theorem Join_returns_step_error:
  assumes "Join w ctx store dial (s, t) = (Some e, s', t')"
  shows "answered w t (events_since t t') = [e]"
  using Join_answered [where w = w and t = t and ctx = ctx and store = store
      and dial = dial and s = s] assms
  by simp

theorem Join_returns_step_error_witness:
  "Join drops_promote (Ctx 0) [] None (node1, []) =
     (Some (Err ''EOF''), node1,
      [Ev_NewConnector 0 [] \<lparr>Dial = Some TCPDial, AttemptTimeout = Second,
          RetryStrategies = [Backoff (BinaryExponential Millisecond)]\<rparr> (Some DefaultLogFunc),
       Ev_connector_Connect (Ctx 0), Ev_Init Request 4096, Ev_Init Response 4096,
       Ev_EncodeJoin Request 1 ''127.0.0.1:9001'',
       Ev_Call (Conn 2) (Ctx 0) Request Response,
       Ev_EncodePromote Request 1, Ev_Call (Conn 2) (Ctx 0) Request Response,
       Ev_conn_Close (Conn 2)])
   \<and> answered drops_promote [] (events_since []
      [Ev_NewConnector 0 [] \<lparr>Dial = Some TCPDial, AttemptTimeout = Second,
          RetryStrategies = [Backoff (BinaryExponential Millisecond)]\<rparr> (Some DefaultLogFunc),
       Ev_connector_Connect (Ctx 0), Ev_Init Request 4096, Ev_Init Response 4096,
       Ev_EncodeJoin Request 1 ''127.0.0.1:9001'',
       Ev_Call (Conn 2) (Ctx 0) Request Response,
       Ev_EncodePromote Request 1, Ev_Call (Conn 2) (Ctx 0) Request Response,
       Ev_conn_Close (Conn 2)]) = [Err ''EOF'']"
proof -
  have h: "Join drops_promote (Ctx 0) [] None (node1, []) =
     (Some (Err ''EOF''), node1,
      [Ev_NewConnector 0 [] \<lparr>Dial = Some TCPDial, AttemptTimeout = Second,
          RetryStrategies = [Backoff (BinaryExponential Millisecond)]\<rparr> (Some DefaultLogFunc),
       Ev_connector_Connect (Ctx 0), Ev_Init Request 4096, Ev_Init Response 4096,
       Ev_EncodeJoin Request 1 ''127.0.0.1:9001'',
       Ev_Call (Conn 2) (Ctx 0) Request Response,
       Ev_EncodePromote Request 1, Ev_Call (Conn 2) (Ctx 0) Request Response,
       Ev_conn_Close (Conn 2)])"
    by (simp add: Join_def drops_promote_def calm_def node1_def Let_def)
  show ?thesis
    by (rule conjI [OF h Join_returns_step_error [OF h]])
qed

text \<open>
  C3 as the specification states it fails: a peer that drops the connection on the Join
  request and a peer that drops it on the Promote request make Join return the same
  error value, though the first run never builds the Promote request and the second does.
\<close>

theorem Join_step_not_told_counterexample:
  "fst (Join drops_join (Ctx 0) [] None (node1, [])) = Some (Err ''EOF'')
   \<and> fst (Join drops_promote (Ctx 0) [] None (node1, [])) = Some (Err ''EOF'')
   \<and> Ev_EncodePromote Request 1
        \<notin> set (snd (snd (Join drops_join (Ctx 0) [] None (node1, []))))
   \<and> Ev_EncodePromote Request 1
        \<in> set (snd (snd (Join drops_promote (Ctx 0) [] None (node1, []))))"
  by (simp add: Join_def drops_join_def drops_promote_def calm_def node1_def Let_def)

text \<open>
  C5. In every run of Join: the only connection is the one the Connector's Connect gives,
  and every call is issued on it; the Promote request is built only after the Join request
  was built and called, and that call, the last event before, was answered without an
  error; every call before the last one of the run was answered without an error and the
  result of Join is the answer to the last one, so that nothing is requested after an
  error; a run that returns nil has issued the Promote request. Once the connection is
  there, the Join request is built and called on it at once; a Promote request that is
  built is called on the same connection at once, and only the closing of the connection
  follows; and the run makes one call for each of the two requests, no other.
\<close>

theorem Join_two_steps_in_order:
  assumes "Join w ctx store dial (s, t) = (r, s', t')"
  shows "filter connects (events_since t t') =
           [Ev_NewConnector 0 store
              \<lparr>Dial = (if dial = None then Some TCPDial else dial), AttemptTimeout = Second,
               RetryStrategies = [Backoff (BinaryExponential Millisecond)]\<rparr> (log s),
            Ev_connector_Connect ctx]
       \<and> (\<forall>c \<in> set (called (events_since t t')). opened w t (events_since t t') = [c])
       \<and> (Ev_EncodePromote Request (id' s) \<in> set (events_since t t') \<longrightarrow>
            (let pre = takeWhile (\<lambda>ev. ev \<noteq> Ev_EncodePromote Request (id' s))
                         (events_since t t')
             in Ev_EncodeJoin Request (id' s) (address s) \<in> set pre
              \<and> (\<exists>c. last pre = Ev_Call c ctx Request Response)
              \<and> answer w (t @ butlast pre) (last pre) = None))
       \<and> (let body = filter (\<lambda>ev. \<not> is_close ev) (events_since t t')
          in answered w t (butlast body) = []
           \<and> r = answer w (t @ butlast body) (last body))
       \<and> (r = None \<longrightarrow> Ev_EncodePromote Request (id' s) \<in> set (events_since t t'))
       \<and> (\<forall>c. opened w t (events_since t t') = [c] \<longrightarrow>
            take 4 (drop 2 (events_since t t')) =
              [Ev_Init Request 4096, Ev_Init Response 4096,
               Ev_EncodeJoin Request (id' s) (address s),
               Ev_Call c ctx Request Response])
       \<and> (Ev_EncodePromote Request (id' s) \<in> set (events_since t t') \<longrightarrow>
            (\<exists>c. opened w t (events_since t t') = [c]
               \<and> dropWhile (\<lambda>ev. ev \<noteq> Ev_EncodePromote Request (id' s))
                     (events_since t t') =
                   [Ev_EncodePromote Request (id' s), Ev_Call c ctx Request Response,
                    Ev_conn_Close c]))
       \<and> length (called (events_since t t')) =
           length (opened w t (events_since t t'))
             + (if Ev_EncodePromote Request (id' s) \<in> set (events_since t t') then 1 else 0)"
proof -
  have *: "r = fst (Join w ctx store dial (s, t))"
    "t' = snd (snd (Join w ctx store dial (s, t)))"
    using assms by simp_all
  show ?thesis
    unfolding *
    by (simp add: Join_def Let_def split: option.splits sum.splits split del: if_split)
qed

theorem Join_two_steps_in_order_witness:
  "Join calm (Ctx 0) [] None (node1, []) =
     (None, node1,
      [Ev_NewConnector 0 [] \<lparr>Dial = Some TCPDial, AttemptTimeout = Second,
          RetryStrategies = [Backoff (BinaryExponential Millisecond)]\<rparr> (Some DefaultLogFunc),
       Ev_connector_Connect (Ctx 0), Ev_Init Request 4096, Ev_Init Response 4096,
       Ev_EncodeJoin Request 1 ''127.0.0.1:9001'',
       Ev_Call (Conn 2) (Ctx 0) Request Response,
       Ev_EncodePromote Request 1, Ev_Call (Conn 2) (Ctx 0) Request Response,
       Ev_conn_Close (Conn 2)])
   \<and> filter connects (events_since [] [Ev_NewConnector 0 [] \<lparr>Dial = Some TCPDial, AttemptTimeout = Second,
          RetryStrategies = [Backoff (BinaryExponential Millisecond)]\<rparr> (Some DefaultLogFunc),
       Ev_connector_Connect (Ctx 0), Ev_Init Request 4096, Ev_Init Response 4096,
       Ev_EncodeJoin Request 1 ''127.0.0.1:9001'',
       Ev_Call (Conn 2) (Ctx 0) Request Response,
       Ev_EncodePromote Request 1, Ev_Call (Conn 2) (Ctx 0) Request Response,
       Ev_conn_Close (Conn 2)]) =
           [Ev_NewConnector 0 ([]::NodeStore)
              \<lparr>Dial = (if (None::DialFunc option) = None then Some TCPDial else (None::DialFunc option)), AttemptTimeout = Second,
               RetryStrategies = [Backoff (BinaryExponential Millisecond)]\<rparr> (log node1),
            Ev_connector_Connect (Ctx 0)]
   \<and> Conn 2 \<in> set (called (events_since []
      [Ev_NewConnector 0 [] \<lparr>Dial = Some TCPDial, AttemptTimeout = Second,
          RetryStrategies = [Backoff (BinaryExponential Millisecond)]\<rparr> (Some DefaultLogFunc),
       Ev_connector_Connect (Ctx 0), Ev_Init Request 4096, Ev_Init Response 4096,
       Ev_EncodeJoin Request 1 ''127.0.0.1:9001'',
       Ev_Call (Conn 2) (Ctx 0) Request Response,
       Ev_EncodePromote Request 1, Ev_Call (Conn 2) (Ctx 0) Request Response,
       Ev_conn_Close (Conn 2)]))
   \<and> opened calm [] (events_since []
      [Ev_NewConnector 0 [] \<lparr>Dial = Some TCPDial, AttemptTimeout = Second,
          RetryStrategies = [Backoff (BinaryExponential Millisecond)]\<rparr> (Some DefaultLogFunc),
       Ev_connector_Connect (Ctx 0), Ev_Init Request 4096, Ev_Init Response 4096,
       Ev_EncodeJoin Request 1 ''127.0.0.1:9001'',
       Ev_Call (Conn 2) (Ctx 0) Request Response,
       Ev_EncodePromote Request 1, Ev_Call (Conn 2) (Ctx 0) Request Response,
       Ev_conn_Close (Conn 2)]) = [Conn 2]
   \<and> Ev_EncodePromote Request (id' node1) \<in> set (events_since []
      [Ev_NewConnector 0 [] \<lparr>Dial = Some TCPDial, AttemptTimeout = Second,
          RetryStrategies = [Backoff (BinaryExponential Millisecond)]\<rparr> (Some DefaultLogFunc),
       Ev_connector_Connect (Ctx 0), Ev_Init Request 4096, Ev_Init Response 4096,
       Ev_EncodeJoin Request 1 ''127.0.0.1:9001'',
       Ev_Call (Conn 2) (Ctx 0) Request Response,
       Ev_EncodePromote Request 1, Ev_Call (Conn 2) (Ctx 0) Request Response,
       Ev_conn_Close (Conn 2)])
   \<and> (let pre = takeWhile (\<lambda>ev. ev \<noteq> Ev_EncodePromote Request (id' node1))
                         (events_since [] [Ev_NewConnector 0 [] \<lparr>Dial = Some TCPDial, AttemptTimeout = Second,
          RetryStrategies = [Backoff (BinaryExponential Millisecond)]\<rparr> (Some DefaultLogFunc),
       Ev_connector_Connect (Ctx 0), Ev_Init Request 4096, Ev_Init Response 4096,
       Ev_EncodeJoin Request 1 ''127.0.0.1:9001'',
       Ev_Call (Conn 2) (Ctx 0) Request Response,
       Ev_EncodePromote Request 1, Ev_Call (Conn 2) (Ctx 0) Request Response,
       Ev_conn_Close (Conn 2)])
             in Ev_EncodeJoin Request (id' node1) (address node1) \<in> set pre
              \<and> (\<exists>c. last pre = Ev_Call c (Ctx 0) Request Response)
              \<and> answer calm ([] @ butlast pre) (last pre) = None)
   \<and> (let body = filter (\<lambda>ev. \<not> is_close ev) (events_since [] [Ev_NewConnector 0 [] \<lparr>Dial = Some TCPDial, AttemptTimeout = Second,
          RetryStrategies = [Backoff (BinaryExponential Millisecond)]\<rparr> (Some DefaultLogFunc),
       Ev_connector_Connect (Ctx 0), Ev_Init Request 4096, Ev_Init Response 4096,
       Ev_EncodeJoin Request 1 ''127.0.0.1:9001'',
       Ev_Call (Conn 2) (Ctx 0) Request Response,
       Ev_EncodePromote Request 1, Ev_Call (Conn 2) (Ctx 0) Request Response,
       Ev_conn_Close (Conn 2)])
          in answered calm [] (butlast body) = []
           \<and> (None::error option) = answer calm ([] @ butlast body) (last body))
   \<and> take 4 (drop 2 (events_since []
      [Ev_NewConnector 0 [] \<lparr>Dial = Some TCPDial, AttemptTimeout = Second,
          RetryStrategies = [Backoff (BinaryExponential Millisecond)]\<rparr> (Some DefaultLogFunc),
       Ev_connector_Connect (Ctx 0), Ev_Init Request 4096, Ev_Init Response 4096,
       Ev_EncodeJoin Request 1 ''127.0.0.1:9001'',
       Ev_Call (Conn 2) (Ctx 0) Request Response,
       Ev_EncodePromote Request 1, Ev_Call (Conn 2) (Ctx 0) Request Response,
       Ev_conn_Close (Conn 2)])) =
      [Ev_Init Request 4096, Ev_Init Response 4096,
       Ev_EncodeJoin Request (id' node1) (address node1),
       Ev_Call (Conn 2) (Ctx 0) Request Response]
   \<and> ((\<exists>c. opened calm [] (events_since [] [Ev_NewConnector 0 [] \<lparr>Dial = Some TCPDial, AttemptTimeout = Second,
          RetryStrategies = [Backoff (BinaryExponential Millisecond)]\<rparr> (Some DefaultLogFunc),
       Ev_connector_Connect (Ctx 0), Ev_Init Request 4096, Ev_Init Response 4096,
       Ev_EncodeJoin Request 1 ''127.0.0.1:9001'',
       Ev_Call (Conn 2) (Ctx 0) Request Response,
       Ev_EncodePromote Request 1, Ev_Call (Conn 2) (Ctx 0) Request Response,
       Ev_conn_Close (Conn 2)]) = [c]
               \<and> dropWhile (\<lambda>ev. ev \<noteq> Ev_EncodePromote Request (id' node1))
                     (events_since [] [Ev_NewConnector 0 [] \<lparr>Dial = Some TCPDial, AttemptTimeout = Second,
          RetryStrategies = [Backoff (BinaryExponential Millisecond)]\<rparr> (Some DefaultLogFunc),
       Ev_connector_Connect (Ctx 0), Ev_Init Request 4096, Ev_Init Response 4096,
       Ev_EncodeJoin Request 1 ''127.0.0.1:9001'',
       Ev_Call (Conn 2) (Ctx 0) Request Response,
       Ev_EncodePromote Request 1, Ev_Call (Conn 2) (Ctx 0) Request Response,
       Ev_conn_Close (Conn 2)]) =
                   [Ev_EncodePromote Request (id' node1), Ev_Call c (Ctx 0) Request Response,
                    Ev_conn_Close c]))
   \<and> length (called (events_since [] [Ev_NewConnector 0 [] \<lparr>Dial = Some TCPDial, AttemptTimeout = Second,
          RetryStrategies = [Backoff (BinaryExponential Millisecond)]\<rparr> (Some DefaultLogFunc),
       Ev_connector_Connect (Ctx 0), Ev_Init Request 4096, Ev_Init Response 4096,
       Ev_EncodeJoin Request 1 ''127.0.0.1:9001'',
       Ev_Call (Conn 2) (Ctx 0) Request Response,
       Ev_EncodePromote Request 1, Ev_Call (Conn 2) (Ctx 0) Request Response,
       Ev_conn_Close (Conn 2)])) =
           length (opened calm [] (events_since [] [Ev_NewConnector 0 [] \<lparr>Dial = Some TCPDial, AttemptTimeout = Second,
          RetryStrategies = [Backoff (BinaryExponential Millisecond)]\<rparr> (Some DefaultLogFunc),
       Ev_connector_Connect (Ctx 0), Ev_Init Request 4096, Ev_Init Response 4096,
       Ev_EncodeJoin Request 1 ''127.0.0.1:9001'',
       Ev_Call (Conn 2) (Ctx 0) Request Response,
       Ev_EncodePromote Request 1, Ev_Call (Conn 2) (Ctx 0) Request Response,
       Ev_conn_Close (Conn 2)]))
             + (if Ev_EncodePromote Request (id' node1) \<in> set (events_since [] [Ev_NewConnector 0 [] \<lparr>Dial = Some TCPDial, AttemptTimeout = Second,
          RetryStrategies = [Backoff (BinaryExponential Millisecond)]\<rparr> (Some DefaultLogFunc),
       Ev_connector_Connect (Ctx 0), Ev_Init Request 4096, Ev_Init Response 4096,
       Ev_EncodeJoin Request 1 ''127.0.0.1:9001'',
       Ev_Call (Conn 2) (Ctx 0) Request Response,
       Ev_EncodePromote Request 1, Ev_Call (Conn 2) (Ctx 0) Request Response,
       Ev_conn_Close (Conn 2)]) then 1 else 0)"
proof -
  have h: "Join calm (Ctx 0) [] None (node1, []) =
     (None, node1,
      [Ev_NewConnector 0 [] \<lparr>Dial = Some TCPDial, AttemptTimeout = Second,
          RetryStrategies = [Backoff (BinaryExponential Millisecond)]\<rparr> (Some DefaultLogFunc),
       Ev_connector_Connect (Ctx 0), Ev_Init Request 4096, Ev_Init Response 4096,
       Ev_EncodeJoin Request 1 ''127.0.0.1:9001'',
       Ev_Call (Conn 2) (Ctx 0) Request Response,
       Ev_EncodePromote Request 1, Ev_Call (Conn 2) (Ctx 0) Request Response,
       Ev_conn_Close (Conn 2)])"
    by (simp add: Join_def calm_def node1_def Let_def)
  have m: "Conn 2 \<in> set (called (events_since []
      [Ev_NewConnector 0 [] \<lparr>Dial = Some TCPDial, AttemptTimeout = Second,
          RetryStrategies = [Backoff (BinaryExponential Millisecond)]\<rparr> (Some DefaultLogFunc),
       Ev_connector_Connect (Ctx 0), Ev_Init Request 4096, Ev_Init Response 4096,
       Ev_EncodeJoin Request 1 ''127.0.0.1:9001'',
       Ev_Call (Conn 2) (Ctx 0) Request Response,
       Ev_EncodePromote Request 1, Ev_Call (Conn 2) (Ctx 0) Request Response,
       Ev_conn_Close (Conn 2)]))"
    by simp
  note c = Join_two_steps_in_order [OF h]
  note c1 = c [THEN conjunct1]
  note c2 = c [THEN conjunct2, THEN conjunct1, THEN bspec, OF m]
  note c5 = c [THEN conjunct2, THEN conjunct2, THEN conjunct2, THEN conjunct2, THEN conjunct1, THEN mp, OF refl]
  note c3 = c [THEN conjunct2, THEN conjunct2, THEN conjunct1, THEN mp, OF c5]
  note c4 = c [THEN conjunct2, THEN conjunct2, THEN conjunct2, THEN conjunct1]
  note c6 = c [THEN conjunct2, THEN conjunct2, THEN conjunct2, THEN conjunct2, THEN conjunct2, THEN conjunct1, THEN spec, THEN mp, OF c2]
  note c7 = c [THEN conjunct2, THEN conjunct2, THEN conjunct2, THEN conjunct2, THEN conjunct2, THEN conjunct2, THEN conjunct1, THEN mp, OF c5]
  note c8 = c [THEN conjunct2, THEN conjunct2, THEN conjunct2, THEN conjunct2, THEN conjunct2, THEN conjunct2, THEN conjunct2]
  show ?thesis
    by (rule conjI [OF h conjI [OF c1 conjI [OF m conjI [OF c2 conjI [OF c5
          conjI [OF c3 conjI [OF c4 conjI [OF c6 conjI [OF c7 c8]]]]]]]]])
qed

text \<open>
  C7. Join and Leave both start by building a Connector and connecting through it, from
  the same configuration: the dial function is the supplied one, or the TCP dialer when
  nil is supplied; the timeout of an attempt is one second (1000000000 ns); the one retry
  strategy is a binary exponential backoff that starts at one millisecond (1000000 ns).
  Both pass the identifier 0 and the supplied store. The logger is not part of the
  configuration: Join passes the node's, Leave the default one.
\<close>

theorem Join_Leave_connector:
  "take 2 (events_since t (snd (snd (Join w ctx store dial (s, t))))) =
     [Ev_NewConnector 0 store
        \<lparr>Dial = Some (case dial of None \<Rightarrow> TCPDial | Some d \<Rightarrow> d),
         AttemptTimeout = 1000000000,
         RetryStrategies = [Backoff (BinaryExponential 1000000)]\<rparr> (log s),
      Ev_connector_Connect ctx]
   \<and> take 2 (events_since t (snd (Leave w ctx i store dial t))) =
     [Ev_NewConnector 0 store
        \<lparr>Dial = Some (case dial of None \<Rightarrow> TCPDial | Some d \<Rightarrow> d),
         AttemptTimeout = 1000000000,
         RetryStrategies = [Backoff (BinaryExponential 1000000)]\<rparr> (Some DefaultLogFunc),
      Ev_connector_Connect ctx]"
proof -
  have d: "(if dial = None then Some TCPDial else dial) =
      Some (case dial of None \<Rightarrow> TCPDial | Some d \<Rightarrow> d)"
    by (cases dial) simp_all
  have j: "take 2 (events_since t (snd (snd (Join w ctx store dial (s, t))))) =
      [Ev_NewConnector 0 store
         \<lparr>Dial = (if dial = None then Some TCPDial else dial), AttemptTimeout = Second,
               RetryStrategies = [Backoff (BinaryExponential Millisecond)]\<rparr> (log s),
       Ev_connector_Connect ctx]"
    by (simp add: Join_def Let_def split: option.splits sum.splits split del: if_split)
  have l: "take 2 (events_since t (snd (Leave w ctx i store dial t))) =
      [Ev_NewConnector 0 store
         \<lparr>Dial = (if dial = None then Some TCPDial else dial), AttemptTimeout = Second,
               RetryStrategies = [Backoff (BinaryExponential Millisecond)]\<rparr> (Some DefaultLogFunc),
       Ev_connector_Connect ctx]"
    by (simp add: Leave_def Let_def split: option.splits sum.splits split del: if_split)
  show ?thesis
    unfolding j l d by (simp add: Second_def Millisecond_def)
qed

theorem Join_Leave_connector_witness:
  "take 2 (events_since [] (snd (snd (Join calm (Ctx 0) ([]::NodeStore) (None::DialFunc option) (node1, []))))) =
     [Ev_NewConnector 0 ([]::NodeStore)
        \<lparr>Dial = Some (case (None::DialFunc option) of None \<Rightarrow> TCPDial | Some d \<Rightarrow> d),
         AttemptTimeout = 1000000000,
         RetryStrategies = [Backoff (BinaryExponential 1000000)]\<rparr> (log node1),
      Ev_connector_Connect (Ctx 0)]
   \<and> take 2 (events_since [] (snd (Leave calm (Ctx 0) 1 ([]::NodeStore) (None::DialFunc option) []))) =
     [Ev_NewConnector 0 ([]::NodeStore)
        \<lparr>Dial = Some (case (None::DialFunc option) of None \<Rightarrow> TCPDial | Some d \<Rightarrow> d),
         AttemptTimeout = 1000000000,
         RetryStrategies = [Backoff (BinaryExponential 1000000)]\<rparr> (Some DefaultLogFunc),
      Ev_connector_Connect (Ctx 0)]"
  by (rule Join_Leave_connector)

section \<open>Errors of the four operations\<close>

lemma Cluster_error:
  "snd (fst (Cluster w ctx (s, t))) = (case answered w t (events_since t (snd (snd (Cluster w ctx (s, t))))) of
                 [] \<Rightarrow> None
               | e # _ \<Rightarrow> Some (Wrap e
                   (if Ev_DecodeNodes Response \<in> set (events_since t (snd (snd (Cluster w ctx (s, t)))))
                    then ''failed to parse Node response''
                    else if Ev_EncodeCluster Request \<in> set (events_since t (snd (snd (Cluster w ctx (s, t)))))
                    then ''failed to send Cluster request''
                    else ''failed to connect to dqlite task'')))"
  by (simp add: Cluster_def Let_def split: option.splits sum.splits)

lemma Leader_error:
  "snd (fst (Leader w ctx (s, t))) = (case answered w t (events_since t (snd (snd (Leader w ctx (s, t))))) of
                 [] \<Rightarrow> None
               | e # _ \<Rightarrow> Some (Wrap e
                   (if Ev_DecodeNode Response \<in> set (events_since t (snd (snd (Leader w ctx (s, t)))))
                    then ''failed to parse Node response''
                    else if Ev_EncodeLeader Request \<in> set (events_since t (snd (snd (Leader w ctx (s, t)))))
                    then ''failed to send Leader request''
                    else ''failed to connect to dqlite task'')))"
  by (simp add: Leader_def Let_def split: option.splits sum.splits prod.splits)

lemma Join_error:
  "fst (Join w ctx store dial (s, t)) =
     (case answered w t (events_since t (snd (snd (Join w ctx store dial (s, t))))) of [] \<Rightarrow> None | e # _ \<Rightarrow> Some e)"
  by (simp add: Join_def Let_def split: option.splits sum.splits split del: if_split)

lemma Leave_error:
  "fst (Leave w ctx i store dial t) =
     (case answered w t (events_since t (snd (Leave w ctx i store dial t))) of [] \<Rightarrow> None | e # _ \<Rightarrow> Some e)"
  by (simp add: Leave_def Let_def split: option.splits sum.splits split del: if_split)

text \<open>
  C4, as the code has it. No error is swallowed: each of Cluster, Leader, Join and Leave
  returns nil only when no call of its run was answered with an error, and otherwise
  returns the first such error. Cluster and Leader wrap it with the description of the
  phase the run had reached: "failed to connect to dqlite task", "failed to send Cluster
  request" (respectively "failed to send Leader request") or "failed to parse Node
  response". Join and Leave return it as it is, with no description.
\<close>

theorem errors_propagated:
  assumes "Cluster w ctx (s, t) = ((ns, e1), s1, t1)"
    and "Leader w ctx (s, t) = ((n, e2), s2, t2)"
    and "Join w ctx store dial (s, t) = (e3, s3, t3)"
    and "Leave w ctx i store dial t = (e4, t4)"
  shows "e1 = (case answered w t (events_since t t1) of
                 [] \<Rightarrow> None
               | e # _ \<Rightarrow> Some (Wrap e
                   (if Ev_DecodeNodes Response \<in> set (events_since t t1)
                    then ''failed to parse Node response''
                    else if Ev_EncodeCluster Request \<in> set (events_since t t1)
                    then ''failed to send Cluster request''
                    else ''failed to connect to dqlite task'')))
       \<and> e2 = (case answered w t (events_since t t2) of
                 [] \<Rightarrow> None
               | e # _ \<Rightarrow> Some (Wrap e
                   (if Ev_DecodeNode Response \<in> set (events_since t t2)
                    then ''failed to parse Node response''
                    else if Ev_EncodeLeader Request \<in> set (events_since t t2)
                    then ''failed to send Leader request''
                    else ''failed to connect to dqlite task'')))
       \<and> e3 = (case answered w t (events_since t t3) of [] \<Rightarrow> None | e # _ \<Rightarrow> Some e)
       \<and> e4 = (case answered w t (events_since t t4) of [] \<Rightarrow> None | e # _ \<Rightarrow> Some e)"
proof -
  have c: "e1 = snd (fst (Cluster w ctx (s, t)))" "t1 = snd (snd (Cluster w ctx (s, t)))"
    using assms(1) by simp_all
  have l: "e2 = snd (fst (Leader w ctx (s, t)))" "t2 = snd (snd (Leader w ctx (s, t)))"
    using assms(2) by simp_all
  have j: "e3 = fst (Join w ctx store dial (s, t))"
    "t3 = snd (snd (Join w ctx store dial (s, t)))"
    using assms(3) by simp_all
  have v: "e4 = fst (Leave w ctx i store dial t)" "t4 = snd (Leave w ctx i store dial t)"
    using assms(4) by simp_all
  show ?thesis
    unfolding c l j v
    by (intro conjI) (rule Cluster_error Leader_error Join_error Leave_error)+
qed

theorem errors_propagated_witness:
  "(Cluster unreachable (Ctx 0) (node1, []) =
     (([], Some (Wrap (Err ''connection refused'') ''failed to connect to dqlite task'')), node1,
      [Ev_protocol_Connect (Ctx 0) UnixDial ''@dqlite-1'' VersionLegacy]))
   \<and> (Leader unreachable (Ctx 0) (node1, []) =
     ((None, Some (Wrap (Err ''connection refused'') ''failed to connect to dqlite task'')), node1,
      [Ev_protocol_Connect (Ctx 0) UnixDial ''@dqlite-1'' VersionOne]))
   \<and> (Join unreachable (Ctx 0) [] None (node1, []) =
     (Some (Err ''no available dqlite leader server found''), node1,
      [Ev_NewConnector 0 [] \<lparr>Dial = Some TCPDial, AttemptTimeout = Second,
          RetryStrategies = [Backoff (BinaryExponential Millisecond)]\<rparr> (Some DefaultLogFunc),
       Ev_connector_Connect (Ctx 0)]))
   \<and> (Leave unreachable (Ctx 0) 1 [] None [] =
     (Some (Err ''no available dqlite leader server found''),
      [Ev_NewConnector 0 [] \<lparr>Dial = Some TCPDial, AttemptTimeout = Second,
          RetryStrategies = [Backoff (BinaryExponential Millisecond)]\<rparr> (Some DefaultLogFunc),
       Ev_connector_Connect (Ctx 0)]))
   \<and> (Some (Wrap (Err ''connection refused'') ''failed to connect to dqlite task'') = (case answered unreachable [] (events_since [] [Ev_protocol_Connect (Ctx 0) UnixDial ''@dqlite-1'' VersionLegacy]) of
                 [] \<Rightarrow> None
               | e # _ \<Rightarrow> Some (Wrap e
                   (if Ev_DecodeNodes Response \<in> set (events_since [] [Ev_protocol_Connect (Ctx 0) UnixDial ''@dqlite-1'' VersionLegacy])
                    then ''failed to parse Node response''
                    else if Ev_EncodeCluster Request \<in> set (events_since [] [Ev_protocol_Connect (Ctx 0) UnixDial ''@dqlite-1'' VersionLegacy])
                    then ''failed to send Cluster request''
                    else ''failed to connect to dqlite task'')))
       \<and> Some (Wrap (Err ''connection refused'') ''failed to connect to dqlite task'') = (case answered unreachable [] (events_since [] [Ev_protocol_Connect (Ctx 0) UnixDial ''@dqlite-1'' VersionOne]) of
                 [] \<Rightarrow> None
               | e # _ \<Rightarrow> Some (Wrap e
                   (if Ev_DecodeNode Response \<in> set (events_since [] [Ev_protocol_Connect (Ctx 0) UnixDial ''@dqlite-1'' VersionOne])
                    then ''failed to parse Node response''
                    else if Ev_EncodeLeader Request \<in> set (events_since [] [Ev_protocol_Connect (Ctx 0) UnixDial ''@dqlite-1'' VersionOne])
                    then ''failed to send Leader request''
                    else ''failed to connect to dqlite task'')))
       \<and> Some (Err ''no available dqlite leader server found'') = (case answered unreachable [] (events_since [] [Ev_NewConnector 0 [] \<lparr>Dial = Some TCPDial, AttemptTimeout = Second,
          RetryStrategies = [Backoff (BinaryExponential Millisecond)]\<rparr> (Some DefaultLogFunc),
       Ev_connector_Connect (Ctx 0)]) of [] \<Rightarrow> None | e # _ \<Rightarrow> Some e)
       \<and> Some (Err ''no available dqlite leader server found'') = (case answered unreachable [] (events_since [] [Ev_NewConnector 0 [] \<lparr>Dial = Some TCPDial, AttemptTimeout = Second,
          RetryStrategies = [Backoff (BinaryExponential Millisecond)]\<rparr> (Some DefaultLogFunc),
       Ev_connector_Connect (Ctx 0)]) of [] \<Rightarrow> None | e # _ \<Rightarrow> Some e))"
proof -
  have h1: "Cluster unreachable (Ctx 0) (node1, []) =
     (([], Some (Wrap (Err ''connection refused'') ''failed to connect to dqlite task'')), node1,
      [Ev_protocol_Connect (Ctx 0) UnixDial ''@dqlite-1'' VersionLegacy])"
    by (simp add: Cluster_def unreachable_def calm_def node1_def Let_def)
  have h2: "Leader unreachable (Ctx 0) (node1, []) =
     ((None, Some (Wrap (Err ''connection refused'') ''failed to connect to dqlite task'')), node1,
      [Ev_protocol_Connect (Ctx 0) UnixDial ''@dqlite-1'' VersionOne])"
    by (simp add: Leader_def unreachable_def calm_def node1_def Let_def)
  have h3: "Join unreachable (Ctx 0) [] None (node1, []) =
     (Some (Err ''no available dqlite leader server found''), node1,
      [Ev_NewConnector 0 [] \<lparr>Dial = Some TCPDial, AttemptTimeout = Second,
          RetryStrategies = [Backoff (BinaryExponential Millisecond)]\<rparr> (Some DefaultLogFunc),
       Ev_connector_Connect (Ctx 0)])"
    by (simp add: Join_def unreachable_def calm_def node1_def Let_def)
  have h4: "Leave unreachable (Ctx 0) 1 [] None [] =
     (Some (Err ''no available dqlite leader server found''),
      [Ev_NewConnector 0 [] \<lparr>Dial = Some TCPDial, AttemptTimeout = Second,
          RetryStrategies = [Backoff (BinaryExponential Millisecond)]\<rparr> (Some DefaultLogFunc),
       Ev_connector_Connect (Ctx 0)])"
    by (simp add: Leave_def unreachable_def calm_def Let_def)
  show ?thesis
    by (rule conjI [OF h1 conjI [OF h2 conjI [OF h3 conjI [OF h4
          errors_propagated [OF h1 h2 h3 h4]]]]])
qed

text \<open>
  C4 as the specification states it fails: when no member of the cluster can be reached,
  Join returns the error of the Connector's Connect itself, with no description wrapped
  around it.
\<close>

theorem Join_error_not_wrapped_counterexample:
  "answer unreachable
       [Ev_NewConnector 0 [] \<lparr>Dial = Some TCPDial, AttemptTimeout = Second,
          RetryStrategies = [Backoff (BinaryExponential Millisecond)]\<rparr> (Some DefaultLogFunc)]
       (Ev_connector_Connect (Ctx 0)) = Some (Err ''no available dqlite leader server found'')
   \<and> fst (Join unreachable (Ctx 0) [] None (node1, []))
       = Some (Err ''no available dqlite leader server found'')
   \<and> map_option wrapping (fst (Join unreachable (Ctx 0) [] None (node1, []))) = Some None"
  by (simp add: Join_def unreachable_def calm_def node1_def Let_def)

section \<open>Connections\<close>

text \<open>
  C6. The one event of a run of Cluster that obtains a connection is
  \<open>protocol.Connect\<close> with the Unix dialer, the node's own bind address and the legacy
  version; for Leader it is the same call with the version \<open>VersionOne\<close>. Neither run
  builds a Connector, so no store is consulted.
\<close>

theorem Cluster_Leader_connect:
  "filter connects (events_since t (snd (snd (Cluster w ctx (s, t))))) =
     [Ev_protocol_Connect ctx UnixDial (bindAddress s) VersionLegacy]
   \<and> filter connects (events_since t (snd (snd (Leader w ctx (s, t))))) =
     [Ev_protocol_Connect ctx UnixDial (bindAddress s) VersionOne]"
  by (simp add: Cluster_def Leader_def Let_def split: option.splits sum.splits prod.splits)

theorem Cluster_Leader_connect_witness:
  "filter connects (events_since [] (snd (snd (Cluster calm (Ctx 0) (node1, []))))) =
     [Ev_protocol_Connect (Ctx 0) UnixDial (bindAddress node1) VersionLegacy]
   \<and> filter connects (events_since [] (snd (snd (Leader calm (Ctx 0) (node1, []))))) =
     [Ev_protocol_Connect (Ctx 0) UnixDial (bindAddress node1) VersionOne]"
  by (rule Cluster_Leader_connect)

text \<open>
  C9. Every run of Cluster, Leader, Join and Leave releases its connection: the
  connections it closes are exactly those it established, and when it established one,
  closing it is the last event of the run, whether the run ends with a result or with an
  error (a cancelled context shows as the error of the call it interrupts).
\<close>

theorem connections_closed:
  "releases w t (events_since t (snd (snd (Cluster w ctx (s, t)))))
   \<and> releases w t (events_since t (snd (snd (Leader w ctx (s, t)))))
   \<and> releases w t (events_since t (snd (snd (Join w ctx store dial (s, t)))))
   \<and> releases w t (events_since t (snd (Leave w ctx i store dial t)))"
proof -
  have "releases w t (events_since t (snd (snd (Cluster w ctx (s, t)))))"
    by (simp add: releases_def Cluster_def Let_def split: option.splits sum.splits)
  moreover have "releases w t (events_since t (snd (snd (Leader w ctx (s, t)))))"
    by (simp add: releases_def Leader_def Let_def
             split: option.splits sum.splits prod.splits)
  moreover have "releases w t (events_since t (snd (snd (Join w ctx store dial (s, t)))))"
    by (simp add: releases_def Join_def Let_def
             split: option.splits sum.splits split del: if_split)
  moreover have "releases w t (events_since t (snd (Leave w ctx i store dial t)))"
    by (simp add: releases_def Leave_def Let_def
             split: option.splits sum.splits split del: if_split)
  ultimately show ?thesis
    by blast
qed

theorem connections_closed_witness:
  "opened drops_join [] (events_since [] (snd (snd (Cluster drops_join (Ctx 0) (node1, []))))) = [Conn 1]
   \<and> opened drops_join [] (events_since [] (snd (snd (Leader drops_join (Ctx 0) (node1, []))))) = [Conn 1]
   \<and> opened drops_join [] (events_since [] (snd (snd (Join drops_join (Ctx 0) [] None (node1, []))))) = [Conn 2]
   \<and> opened drops_join [] (events_since [] (snd (Leave drops_join (Ctx 0) 1 [] None []))) = [Conn 2]
   \<and> (releases drops_join [] (events_since [] (snd (snd (Cluster drops_join (Ctx 0) (node1, [])))))
   \<and> releases drops_join [] (events_since [] (snd (snd (Leader drops_join (Ctx 0) (node1, [])))))
   \<and> releases drops_join [] (events_since [] (snd (snd (Join drops_join (Ctx 0) ([]::NodeStore) (None::DialFunc option) (node1, [])))))
   \<and> releases drops_join [] (events_since [] (snd (Leave drops_join (Ctx 0) 1 ([]::NodeStore) (None::DialFunc option) []))))"
proof -
  have o1: "opened drops_join [] (events_since [] (snd (snd (Cluster drops_join (Ctx 0) (node1, []))))) = [Conn 1]"
    by (simp add: Cluster_def drops_join_def calm_def node1_def Let_def)
  have o2: "opened drops_join [] (events_since [] (snd (snd (Leader drops_join (Ctx 0) (node1, []))))) = [Conn 1]"
    by (simp add: Leader_def drops_join_def calm_def node1_def Let_def)
  have o3: "opened drops_join [] (events_since [] (snd (snd (Join drops_join (Ctx 0) [] None (node1, []))))) = [Conn 2]"
    by (simp add: Join_def drops_join_def calm_def node1_def Let_def)
  have o4: "opened drops_join [] (events_since [] (snd (Leave drops_join (Ctx 0) 1 [] None []))) = [Conn 2]"
    by (simp add: Leave_def drops_join_def calm_def Let_def)
  show ?thesis
    by (rule conjI [OF o1 conjI [OF o2 conjI [OF o3 conjI [OF o4 connections_closed]]]])
qed

section \<open>Construction of a node\<close>

lemma DialFunc_apply_options:
  "DialFunc (apply_options options o') = Some d
     \<Longrightarrow> DialFunc o' = Some d \<or> WithNodeDialFunc (Some d) \<in> set options"
proof (induction options arbitrary: o')
  case Nil
  then show ?case by simp
next
  case (Cons option options)
  from Cons.IH [OF Cons.prems [simplified]] show ?case
    by (cases option) auto
qed

lemma DialFunc_default:
  "DialFunc (apply_options options defaultNodeOptions) = Some d
     \<Longrightarrow> WithNodeDialFunc (Some d) \<in> set options"
  using DialFunc_apply_options [of options defaultNodeOptions d]
  by (simp add: defaultNodeOptions_def)

lemma invoke_bindAddress: "bindAddress (fst (invoke w m st)) = bindAddress (fst st)"
proof (cases st)
  case (Pair s t)
  show ?thesis
  proof (cases m)
    case M_BindAddress
    then show ?thesis
      by (simp add: Pair Node_BindAddress_def Let_def)
  next
    case (M_Cluster ctx)
    then show ?thesis
      by (simp add: Pair Cluster_def Let_def split: option.splits sum.splits)
  next
    case (M_Leader ctx)
    then show ?thesis
      by (simp add: Pair Leader_def Let_def split: option.splits sum.splits prod.splits)
  next
    case M_Start
    then show ?thesis
      by (simp add: Pair Start_def Let_def)
  next
    case (M_Join ctx store dial)
    then show ?thesis
      by (simp add: Pair Join_def Let_def
               split: option.splits sum.splits split del: if_split)
  next
    case M_Close
    then show ?thesis
      by (simp add: Pair Close_def Let_def split: option.splits)
  qed
qed

lemma run_bindAddress: "bindAddress (fst (run w ms st)) = bindAddress (fst st)"
  by (induction ms arbitrary: st) (simp_all add: invoke_bindAddress)

lemma BindAddress_apply_options:
  "BindAddress (apply_options options o') =
     (let given = [a. WithNodeBindAddress a \<leftarrow> options]
      in if given = [] then BindAddress o' else last given)"
proof (induction options arbitrary: o')
  case Nil
  then show ?case by simp
next
  case (Cons option options)
  show ?case
    by (cases option) (simp_all add: Cons.IH Let_def)
qed

lemma NewNode_bindAddress:
  "case fst (fst (NewNode w info dir options t)) of
     None \<Rightarrow> True
   | Some s \<Rightarrow>
       bindAddress s =
         (let given = [a. WithNodeBindAddress a \<leftarrow> options]
          in if given \<noteq> [] \<and> last given \<noteq> [] then last given
             else ''@dqlite-'' @ decimal (unat (ID info)))"
  by (simp add: NewNode_def Let_def BindAddress_apply_options defaultNodeOptions_def
           split: option.splits sum.splits prod.splits)

text \<open>
  C8. The bind address of a node that NewNode returns is the address of the last
  WithNodeBindAddress option in the list of options, when there is one and its address is
  not the empty string (an override was given), and otherwise "@dqlite-" followed by the
  decimal digits of the node's ID. No run of methods on the node, with whatever
  collaborators and from whatever history, changes it.
\<close>

theorem bindAddress_fixed:
  assumes "NewNode w info dir options t = ((Some s, err), t')"
  shows "bindAddress s =
           (let given = [a. WithNodeBindAddress a \<leftarrow> options]
            in if given \<noteq> [] \<and> last given \<noteq> [] then last given
               else ''@dqlite-'' @ decimal (unat (ID info)))
       \<and> (\<forall>w' ms t''. bindAddress (fst (run w' ms (s, t''))) = bindAddress s)"
  using NewNode_bindAddress [where w = w and info = info and dir = dir
      and options = options and t = t] assms
  by (simp add: run_bindAddress)

theorem bindAddress_fixed_witness:
  "NewNode calm \<lparr>ID = 42, Address = ''10.0.0.3:9001''\<rparr> ''/data'' [] [] =
     ((Some \<lparr>log = Some DefaultLogFunc, server = Engine 1, acceptCh = [], id' = 42,
        address = ''10.0.0.3:9001'', bindAddress = ''@dqlite-42''\<rparr>, None),
      [Ev_bindings_NewNode 42 ''10.0.0.3:9001'' ''/data'',
       Ev_SetBindAddress (Engine 1) ''@dqlite-42''])
   \<and> (bindAddress \<lparr>log = Some DefaultLogFunc, server = Engine 1, acceptCh = [], id' = 42,
        address = ''10.0.0.3:9001'', bindAddress = ''@dqlite-42''\<rparr> =
           (let given = [a. WithNodeBindAddress a \<leftarrow> ([]::NodeOption list)]
            in if given \<noteq> [] \<and> last given \<noteq> [] then last given
               else ''@dqlite-'' @ decimal (unat (ID \<lparr>ID = 42, Address = ''10.0.0.3:9001''\<rparr>)))
       \<and> (\<forall>w' ms t''. bindAddress (fst (run w' ms (\<lparr>log = Some DefaultLogFunc, server = Engine 1, acceptCh = [], id' = 42,
        address = ''10.0.0.3:9001'', bindAddress = ''@dqlite-42''\<rparr>, t''))) = bindAddress \<lparr>log = Some DefaultLogFunc, server = Engine 1, acceptCh = [], id' = 42,
        address = ''10.0.0.3:9001'', bindAddress = ''@dqlite-42''\<rparr>))
   \<and> NewNode calm \<lparr>ID = 42, Address = ''10.0.0.3:9001''\<rparr> ''/data'' [WithNodeLogFunc None, WithNodeBindAddress ''127.0.0.1:9000''] [] =
     ((Some \<lparr>log = None, server = Engine 1, acceptCh = [], id' = 42,
        address = ''10.0.0.3:9001'', bindAddress = ''127.0.0.1:9000''\<rparr>, None),
      [Ev_bindings_NewNode 42 ''10.0.0.3:9001'' ''/data'',
       Ev_SetBindAddress (Engine 1) ''127.0.0.1:9000''])
   \<and> (bindAddress \<lparr>log = None, server = Engine 1, acceptCh = [], id' = 42,
        address = ''10.0.0.3:9001'', bindAddress = ''127.0.0.1:9000''\<rparr> =
           (let given = [a. WithNodeBindAddress a \<leftarrow> [WithNodeLogFunc None, WithNodeBindAddress ''127.0.0.1:9000'']]
            in if given \<noteq> [] \<and> last given \<noteq> [] then last given
               else ''@dqlite-'' @ decimal (unat (ID \<lparr>ID = 42, Address = ''10.0.0.3:9001''\<rparr>)))
       \<and> (\<forall>w' ms t''. bindAddress (fst (run w' ms (\<lparr>log = None, server = Engine 1, acceptCh = [], id' = 42,
        address = ''10.0.0.3:9001'', bindAddress = ''127.0.0.1:9000''\<rparr>, t''))) = bindAddress \<lparr>log = None, server = Engine 1, acceptCh = [], id' = 42,
        address = ''10.0.0.3:9001'', bindAddress = ''127.0.0.1:9000''\<rparr>))"
proof -
  have d: "decimal 42 = ''42''"
    by (simp add: decimal.simps [of 42] decimal.simps [of 4] digit_def)
  have h: "NewNode calm \<lparr>ID = 42, Address = ''10.0.0.3:9001''\<rparr> ''/data'' [] [] =
     ((Some \<lparr>log = Some DefaultLogFunc, server = Engine 1, acceptCh = [], id' = 42,
        address = ''10.0.0.3:9001'', bindAddress = ''@dqlite-42''\<rparr>, None),
      [Ev_bindings_NewNode 42 ''10.0.0.3:9001'' ''/data'',
       Ev_SetBindAddress (Engine 1) ''@dqlite-42''])"
    by (simp add: NewNode_def calm_def defaultNodeOptions_def d Let_def)
  have g: "NewNode calm \<lparr>ID = 42, Address = ''10.0.0.3:9001''\<rparr> ''/data'' [WithNodeLogFunc None, WithNodeBindAddress ''127.0.0.1:9000''] [] =
     ((Some \<lparr>log = None, server = Engine 1, acceptCh = [], id' = 42,
        address = ''10.0.0.3:9001'', bindAddress = ''127.0.0.1:9000''\<rparr>, None),
      [Ev_bindings_NewNode 42 ''10.0.0.3:9001'' ''/data'',
       Ev_SetBindAddress (Engine 1) ''127.0.0.1:9000''])"
    by (simp add: NewNode_def calm_def defaultNodeOptions_def Let_def)
  show ?thesis
    by (rule conjI [OF h conjI [OF bindAddress_fixed [OF h]
          conjI [OF g bindAddress_fixed [OF g]]]])
qed

text \<open>
  C10. In every run of NewNode: the error returned is the first error that the engine's
  constructor, SetDialFunc or SetBindAddress answered, or nil when none did; the node
  returned is nil exactly when an error is returned; no call before the last one of the
  run was answered with an error and the error returned is the answer to the last one, so
  that no step follows a failed one; and SetDialFunc is called only with a dial function
  that an option supplied, which is not nil.
\<close>

theorem NewNode_atomic_on_error:
  assumes "NewNode w info dir options t = ((n, err), t')"
  shows "err = (case answered w t (events_since t t') of [] \<Rightarrow> None | e # _ \<Rightarrow> Some e)
       \<and> (n = None \<longleftrightarrow> err \<noteq> None)
       \<and> answered w t (butlast (events_since t t')) = []
       \<and> err = answer w (t @ butlast (events_since t t')) (last (events_since t t'))
       \<and> (\<forall>srv d. Ev_SetDialFunc srv d \<in> set (events_since t t')
             \<longrightarrow> WithNodeDialFunc (Some d) \<in> set options)"
proof -
  have *: "n = fst (fst (NewNode w info dir options t))"
    "err = snd (fst (NewNode w info dir options t))"
    "t' = snd (NewNode w info dir options t)"
    using assms by simp_all
  show ?thesis
    unfolding *
    by (simp add: NewNode_def Let_def DialFunc_default
             split: option.splits sum.splits prod.splits split del: if_split)
qed

theorem NewNode_atomic_on_error_witness:
  "NewNode deaf \<lparr>ID = 3, Address = ''10.0.0.3:9001''\<rparr> ''/data'' [WithNodeDialFunc (Some (CustomDial 1))] [] =
     ((None, Some (Err ''dial function rejected'')),
      [Ev_bindings_NewNode 3 ''10.0.0.3:9001'' ''/data'',
       Ev_SetDialFunc (Engine 1) (CustomDial 1)])
   \<and> Ev_SetDialFunc (Engine 1) (CustomDial 1) \<in> set (events_since []
      [Ev_bindings_NewNode 3 ''10.0.0.3:9001'' ''/data'',
       Ev_SetDialFunc (Engine 1) (CustomDial 1)])
   \<and> Some (Err ''dial function rejected'') = (case answered deaf [] (events_since [] [Ev_bindings_NewNode 3 ''10.0.0.3:9001'' ''/data'',
       Ev_SetDialFunc (Engine 1) (CustomDial 1)]) of [] \<Rightarrow> None | e # _ \<Rightarrow> Some e)
   \<and> ((None::Node option) = None \<longleftrightarrow> Some (Err ''dial function rejected'') \<noteq> None)
   \<and> answered deaf [] (butlast (events_since [] [Ev_bindings_NewNode 3 ''10.0.0.3:9001'' ''/data'',
       Ev_SetDialFunc (Engine 1) (CustomDial 1)])) = []
   \<and> Some (Err ''dial function rejected'') = answer deaf ([] @ butlast (events_since [] [Ev_bindings_NewNode 3 ''10.0.0.3:9001'' ''/data'',
       Ev_SetDialFunc (Engine 1) (CustomDial 1)])) (last (events_since [] [Ev_bindings_NewNode 3 ''10.0.0.3:9001'' ''/data'',
       Ev_SetDialFunc (Engine 1) (CustomDial 1)]))
   \<and> WithNodeDialFunc (Some (CustomDial 1)) \<in> set [WithNodeDialFunc (Some (CustomDial 1))]"
proof -
  have h: "NewNode deaf \<lparr>ID = 3, Address = ''10.0.0.3:9001''\<rparr> ''/data'' [WithNodeDialFunc (Some (CustomDial 1))] [] =
     ((None, Some (Err ''dial function rejected'')),
      [Ev_bindings_NewNode 3 ''10.0.0.3:9001'' ''/data'',
       Ev_SetDialFunc (Engine 1) (CustomDial 1)])"
    by (simp add: NewNode_def deaf_def calm_def defaultNodeOptions_def Let_def)
  have m: "Ev_SetDialFunc (Engine 1) (CustomDial 1) \<in> set (events_since []
      [Ev_bindings_NewNode 3 ''10.0.0.3:9001'' ''/data'',
       Ev_SetDialFunc (Engine 1) (CustomDial 1)])"
    by simp
  note c = NewNode_atomic_on_error [OF h]
  note c1 = c [THEN conjunct1]
  note c2 = c [THEN conjunct2, THEN conjunct1]
  note c3 = c [THEN conjunct2, THEN conjunct2, THEN conjunct1]
  note c4 = c [THEN conjunct2, THEN conjunct2, THEN conjunct2, THEN conjunct1]
  note c5 = c [THEN conjunct2, THEN conjunct2, THEN conjunct2, THEN conjunct2,
      THEN spec, THEN spec, THEN mp, OF m]
  show ?thesis
    by (rule conjI [OF h conjI [OF m conjI [OF c1 conjI [OF c2 conjI [OF c3
          conjI [OF c4 c5]]]]]])
qed

end
